theory Spec2Isabelle
  imports Main
begin

section \<open>Types of the application (types/index.ts)\<close>

text \<open>
  \<^verbatim>\<open>User\<close>, \<^verbatim>\<open>LoginResponse\<close>, \<^verbatim>\<open>LoginResult\<close> and \<^verbatim>\<open>ApiError\<close> are the interfaces of the
  source. The field \<^verbatim>\<open>id\<close> of \<^verbatim>\<open>User\<close> is written \<open>id_User\<close> (\<open>id\<close> is the identity
  function of HOL). An \<^verbatim>\<open>ApiError\<close> payload is an object with string keys; its values are
  taken as strings (the optional field \<^verbatim>\<open>error\<close> is declared a string).
\<close>

record User =
  id_User :: int
  username :: string
  email :: string
  first_name :: string
  last_name :: string

record LoginResponse =
  token_of :: string
  user_of :: User

record LoginResult =
  success :: bool
  error :: "string option"

type_synonym ApiError = "string \<rightharpoonup> string"

text \<open>
  What axios rejects with. The response interceptor and \<^verbatim>\<open>login\<close> look at three shapes only:
  an error with a response (status and optional payload), an error with a request and no
  response, and anything else (with its message).
\<close>

datatype AxiosError =
    Response nat "ApiError option"
  | Request
  | Other string

text \<open>How an awaited promise settles.\<close>

datatype 'a settled = Fulfilled 'a | Rejected AxiosError

section \<open>Browser state and provider state\<close>

text \<open>
  \<^verbatim>\<open>localStorage\<close> is a map from keys to strings, \<^verbatim>\<open>window.location.pathname\<close> a string,
  and \<open>navigations\<close> lists the addresses assigned to \<^verbatim>\<open>window.location.href\<close>, newest first.
  \<open>quota_exceeded\<close> is the browser's decision on a write: given the entries stored so far,
  a key and a value, whether \<^verbatim>\<open>localStorage.setItem\<close> throws \<^verbatim>\<open>QuotaExceededError\<close>.
  The three \<^verbatim>\<open>useState\<close> cells of \<^verbatim>\<open>AuthProvider\<close> are \<open>user\<close>, \<open>token\<close> and \<open>loading\<close>;
  \<^verbatim>\<open>null\<close> is \<open>None\<close>.
\<close>

record World =
  user :: "User option"
  token :: "string option"
  loading :: bool
  localStorage :: "string \<rightharpoonup> string"
  pathname :: string
  navigations :: "string list"
  quota_exceeded :: "(string \<rightharpoonup> string) \<Rightarrow> string \<Rightarrow> string \<Rightarrow> bool"

definition getItem :: "string \<Rightarrow> World \<Rightarrow> string option" where
  "getItem k w = localStorage w k"

text \<open>\<^verbatim>\<open>setItem\<close> either stores the value or throws (\<open>None\<close>) and stores nothing.\<close>

definition setItem :: "string \<Rightarrow> string \<Rightarrow> World \<Rightarrow> World option" where
  "setItem k v w =
     (if quota_exceeded w (localStorage w) k v then None
      else Some (w\<lparr>localStorage := (localStorage w)(k \<mapsto> v)\<rparr>))"

definition removeItem :: "string \<Rightarrow> World \<Rightarrow> World" where
  "removeItem k w = w\<lparr>localStorage := (localStorage w)(k := None)\<rparr>"

text \<open>
  JavaScript truthiness of a value of type \<^verbatim>\<open>string | null\<close>: \<^verbatim>\<open>null\<close> and the empty string
  are falsy. A \<^verbatim>\<open>User\<close> object is always truthy, so \<^verbatim>\<open>!!user\<close> is \<open>user \<noteq> None\<close>.
\<close>

fun truthy :: "string option \<Rightarrow> bool" where
  "truthy None = False"
| "truthy (Some s) = (s \<noteq> [])"

text \<open>The state \<^verbatim>\<open>useState\<close> starts from when the provider mounts in a given browser.\<close>

definition mount ::
  "(string \<rightharpoonup> string) \<Rightarrow> string \<Rightarrow>
   ((string \<rightharpoonup> string) \<Rightarrow> string \<Rightarrow> string \<Rightarrow> bool) \<Rightarrow> World" where
  "mount store path quota =
     \<lparr>user = None, token = None, loading = True, localStorage = store, pathname = path,
      navigations = [], quota_exceeded = quota\<rparr>"

section \<open>The shared HTTP client (api/axios.ts)\<close>

text \<open>
  The error handler of the response interceptor. Logging is not modelled. Assigning
  \<^verbatim>\<open>window.location.href\<close> is recorded in \<open>navigations\<close> and moves the browser to that path
  (the page load that follows it is not modelled).
\<close>

definition response_error_handler :: "AxiosError \<Rightarrow> World \<Rightarrow> World" where
  "response_error_handler e w =
     (case e of
        Response status payload \<Rightarrow>
          (if status = 401 then
             (let w1 = removeItem ''user'' (removeItem ''token'' w)
              in if pathname w1 \<noteq> ''/login''
                 then w1\<lparr>pathname := ''/login'', navigations := ''/login'' # navigations w1\<rparr>
                 else w1)
           else w)
      | Request \<Rightarrow> w
      | Other m \<Rightarrow> w)"

text \<open>
  \<^verbatim>\<open>api.post\<close>: the transport's outcome is an input; a fulfilled response passes through
  unchanged, a rejection runs the error handler and is rejected again. (The request
  interceptor only adds a header to the outgoing request.)
\<close>

definition api_post :: "'a settled \<Rightarrow> World \<Rightarrow> 'a settled \<times> World" where
  "api_post reply w =
     (case reply of
        Fulfilled r \<Rightarrow> (Fulfilled r, w)
      | Rejected e \<Rightarrow> (Rejected e, response_error_handler e w))"

section \<open>The authentication provider (context/AuthContext.tsx)\<close>

text \<open>
  \<^verbatim>\<open>checkAuth\<close>. \<^verbatim>\<open>JSON.parse\<close> is a parameter: \<open>None\<close> is a thrown \<^verbatim>\<open>SyntaxError\<close>, and a
  parsed value is taken at the type the source asserts for it (\<^verbatim>\<open>User\<close>); a stored text
  that parses to a value of another type (such as \<^verbatim>\<open>null\<close>) is outside this model. Inside the
  \<^verbatim>\<open>if\<close> the stored user is a string, which \<open>Option.bind\<close> hands to the parser. A state
  update made before the parser throws stays made. The \<^verbatim>\<open>catch\<close> block removes both
  entries; the \<^verbatim>\<open>finally\<close> block sets \<open>loading\<close>.
\<close>

definition checkAuth :: "(string \<Rightarrow> User option) \<Rightarrow> World \<Rightarrow> World" where
  "checkAuth JSON_parse w =
     (let storedToken = getItem ''token'' w;
          storedUser = getItem ''user'' w;
          w1 = (if truthy storedToken \<and> truthy storedUser then
                  (let w2 = w\<lparr>token := storedToken\<rparr>
                   in case Option.bind storedUser JSON_parse of
                        Some parsedUser \<Rightarrow> w2\<lparr>user := Some parsedUser\<rparr>
                      | None \<Rightarrow> removeItem ''user'' (removeItem ''token'' w2))
                else w)
      in w1\<lparr>loading := False\<rparr>)"

text \<open>The message \<^verbatim>\<open>login\<close> reports: \<^verbatim>\<open>axiosError.response?.data?.error || '...'\<close>.\<close>

definition login_failed :: string where
  "login_failed = ''Login failed. Please try again.''"

definition error_message :: "AxiosError \<Rightarrow> string" where
  "error_message e =
     (case e of
        Response status (Some payload) \<Rightarrow>
          (case payload ''error'' of
             Some m \<Rightarrow> (if m \<noteq> [] then m else login_failed)
           | None \<Rightarrow> login_failed)
      | Response status None \<Rightarrow> login_failed
      | Request \<Rightarrow> login_failed
      | Other m \<Rightarrow> login_failed)"

text \<open>
  \<^verbatim>\<open>login\<close>. \<open>authenticate\<close> is what the transport answers to the POST of the credentials
  to \<^verbatim>\<open>/api/auth/login/\<close>; \<^verbatim>\<open>JSON.stringify\<close> is a parameter. Both writes to the storage are
  inside the \<^verbatim>\<open>try\<close>: when one throws, the statements after it do not run and the \<^verbatim>\<open>catch\<close>
  block returns the failure; the thrown \<^verbatim>\<open>DOMException\<close> has no \<^verbatim>\<open>response\<close>, so the text is
  the fallback. Every path of the source's \<^verbatim>\<open>try\<close>/\<^verbatim>\<open>catch\<close> ends in a \<^verbatim>\<open>return\<close>, so the
  result is a \<^verbatim>\<open>LoginResult\<close>.
\<close>

definition login ::
  "(User \<Rightarrow> string) \<Rightarrow> (string \<Rightarrow> string \<Rightarrow> LoginResponse settled) \<Rightarrow>
   string \<Rightarrow> string \<Rightarrow> World \<Rightarrow> LoginResult \<times> World" where
  "login JSON_stringify authenticate uname password w =
     (case api_post (authenticate uname password) w of
        (Fulfilled d, w1) \<Rightarrow>
          (let newToken = token_of d;
               newUser = user_of d
           in case setItem ''token'' newToken w1 of
                None \<Rightarrow> (\<lparr>success = False, error = Some login_failed\<rparr>, w1)
              | Some w2 \<Rightarrow>
                  (case setItem ''user'' (JSON_stringify newUser) w2 of
                     None \<Rightarrow> (\<lparr>success = False, error = Some login_failed\<rparr>, w2)
                   | Some w3 \<Rightarrow>
                       (let w4 = w3\<lparr>token := Some newToken\<rparr>;
                            w5 = w4\<lparr>user := Some newUser\<rparr>
                        in (\<lparr>success = True, error = None\<rparr>, w5))))
      | (Rejected e, w1) \<Rightarrow>
          (\<lparr>success = False, error = Some (error_message e)\<rparr>, w1))"

text \<open>
  \<^verbatim>\<open>logout\<close>. \<open>revoke\<close> is what the transport answers to the POST to
  \<^verbatim>\<open>/api/auth/logout/\<close>; the \<^verbatim>\<open>catch\<close> block only logs, the \<^verbatim>\<open>finally\<close> block clears.
\<close>

definition logout :: "unit settled \<Rightarrow> World \<Rightarrow> World" where
  "logout revoke w =
     (case api_post revoke w of
        (r, w1) \<Rightarrow>
          removeItem ''user'' (removeItem ''token'' (w1\<lparr>token := None, user := None\<rparr>)))"

text \<open>\<^verbatim>\<open>isAuthenticated = !!token && !!user\<close>.\<close>

definition isAuthenticated :: "World \<Rightarrow> bool" where
  "isAuthenticated w = (truthy (token w) \<and> user w \<noteq> None)"

text \<open>The context value the provider publishes, and \<^verbatim>\<open>useAuth\<close>, which throws without it.\<close>

record AuthContextType =
  ctx_user :: "User option"
  ctx_token :: "string option"
  ctx_loading :: bool
  ctx_isAuthenticated :: bool

definition context_value :: "World \<Rightarrow> AuthContextType" where
  "context_value w =
     \<lparr>ctx_user = user w, ctx_token = token w, ctx_loading = loading w,
      ctx_isAuthenticated = isAuthenticated w\<rparr>"

definition useAuth :: "AuthContextType option \<Rightarrow> string + AuthContextType" where
  "useAuth context =
     (case context of
        None \<Rightarrow> Inl ''useAuth must be used within AuthProvider''
      | Some c \<Rightarrow> Inr c)"

section \<open>The route guard (routes/PrivateRoute.tsx)\<close>

text \<open>
  What \<^verbatim>\<open>PrivateRoute\<close> renders: the "Checking authentication..." placeholder, a
  \<^verbatim>\<open>Navigate\<close> element (target and \<^verbatim>\<open>replace\<close> flag) or its children.
\<close>

datatype element = Placeholder | Navigate string bool | Children

definition PrivateRoute :: "AuthContextType option \<Rightarrow> string + element" where
  "PrivateRoute context =
     (case useAuth context of
        Inl thrown \<Rightarrow> Inl thrown
      | Inr c \<Rightarrow>
          Inr (if ctx_loading c then Placeholder
               else if \<not> ctx_isAuthenticated c then Navigate ''/login'' True
               else Children))"

text \<open>
  The effect of a rendered element on the history stack (current entry first), as the
  router documents it for \<^verbatim>\<open>Navigate\<close>: with \<^verbatim>\<open>replace\<close> the current entry is replaced,
  without it a new entry is pushed. Other elements do not navigate.
\<close>

fun commit :: "element \<Rightarrow> string list \<Rightarrow> string list" where
  "commit (Navigate target True) (current # older) = target # older"
| "commit (Navigate target True) [] = [target]"
| "commit (Navigate target False) history = target # history"
| "commit Placeholder history = history"
| "commit Children history = history"

section \<open>The life of a process\<close>

text \<open>
  After mounting, the effect runs \<^verbatim>\<open>checkAuth\<close> once; from then on the user's actions call
  \<^verbatim>\<open>login\<close> and \<^verbatim>\<open>logout\<close>, each with whatever the transport answers.
\<close>

datatype action =
    Login string string "LoginResponse settled"
  | Logout "unit settled"

fun step :: "(User \<Rightarrow> string) \<Rightarrow> action \<Rightarrow> World \<Rightarrow> World" where
  "step JSON_stringify (Login uname password reply) w =
     snd (login JSON_stringify (\<lambda>u p. reply) uname password w)"
| "step JSON_stringify (Logout reply) w = logout reply w"

fun snapshots :: "(User \<Rightarrow> string) \<Rightarrow> action list \<Rightarrow> World \<Rightarrow> World list" where
  "snapshots JSON_stringify [] w = [w]"
| "snapshots JSON_stringify (a # as) w =
     w # snapshots JSON_stringify as (step JSON_stringify a w)"

definition lifetime ::
  "(string \<Rightarrow> User option) \<Rightarrow> (User \<Rightarrow> string) \<Rightarrow> (string \<rightharpoonup> string) \<Rightarrow> string \<Rightarrow>
   ((string \<rightharpoonup> string) \<Rightarrow> string \<Rightarrow> string \<Rightarrow> bool) \<Rightarrow> action list \<Rightarrow> World list" where
  "lifetime JSON_parse JSON_stringify store path quota as =
     mount store path quota #
     snapshots JSON_stringify as (checkAuth JSON_parse (mount store path quota))"

section \<open>Sample data\<close>

text \<open>
  A user record and its JSON text, and \<^verbatim>\<open>JSON.parse\<close> and \<^verbatim>\<open>JSON.stringify\<close> as far as the
  examples below use them: at \<open>alice\<close>, at \<open>alice_json\<close> and at the text \<^verbatim>\<open>{bad\<close>, which
  is not JSON.
\<close>

definition alice :: User where
  "alice = \<lparr>id_User = 1, username = ''testuser'', email = ''t@example.com'',
             first_name = ''Test'', last_name = ''User''\<rparr>"

definition alice_json :: string where
  \<open>alice_json =
     ''{"id":1,"username":"testuser","email":"t@example.com","first_name":"Test","last_name":"User"}''\<close>

definition parse_sample :: "string \<Rightarrow> User option" where
  "parse_sample s = (if s = alice_json then Some alice else None)"

definition stringify_sample :: "User \<Rightarrow> string" where
  "stringify_sample u = (if u = alice then alice_json else ''{}'')"

text \<open>
  Three browsers: one whose storage accepts every write, one whose storage is full, and
  one that has room for values of at most sixteen characters.
\<close>

definition unlimited :: "(string \<rightharpoonup> string) \<Rightarrow> string \<Rightarrow> string \<Rightarrow> bool" where
  "unlimited entries k v = False"

definition full :: "(string \<rightharpoonup> string) \<Rightarrow> string \<Rightarrow> string \<Rightarrow> bool" where
  "full entries k v = True"

definition short_values_only :: "(string \<rightharpoonup> string) \<Rightarrow> string \<Rightarrow> string \<Rightarrow> bool" where
  "short_values_only entries k v = (16 < length v)"

text \<open>Three contents of \<^verbatim>\<open>localStorage\<close> at start.\<close>

definition corrupt_store :: "string \<rightharpoonup> string" where
  "corrupt_store = [''token'' \<mapsto> ''abc'', ''user'' \<mapsto> ''{bad'']"

definition token_only_store :: "string \<rightharpoonup> string" where
  "token_only_store = [''token'' \<mapsto> ''abc'']"

definition valid_store :: "string \<rightharpoonup> string" where
  "valid_store = [''token'' \<mapsto> ''abc'', ''user'' \<mapsto> alice_json]"

text \<open>
  The login page of a browser whose storage holds a token and no user, after the
  start-up check.
\<close>

definition stale_login_page :: World where
  "stale_login_page = checkAuth parse_sample (mount token_only_store ''/login'' unlimited)"

text \<open>A transport that answers every login with an error response of one field.\<close>

definition reject_with ::
  "nat \<Rightarrow> string \<Rightarrow> string \<Rightarrow> string \<Rightarrow> string \<Rightarrow> LoginResponse settled" where
  "reject_with status field content uname password =
     Rejected (Response status (Some [field \<mapsto> content]))"

text \<open>A transport that answers every login with a token and a user.\<close>

definition answer_with :: "string \<Rightarrow> User \<Rightarrow> string \<Rightarrow> string \<Rightarrow> LoginResponse settled" where
  "answer_with t u uname password = Fulfilled \<lparr>token_of = t, user_of = u\<rparr>"

definition invalid_credentials :: AxiosError where
  "invalid_credentials = Response 401 (Some [''error'' \<mapsto> ''Invalid credentials''])"

section \<open>Auxiliary facts\<close>

lemmas storage_defs = getItem_def setItem_def removeItem_def

lemma login_loading: "loading (snd (login S a u p w)) = loading w"
  by (auto simp add: login_def api_post_def response_error_handler_def storage_defs Let_def
      split: settled.splits AxiosError.splits option.splits if_splits)

lemma logout_loading: "loading (logout r w) = loading w"
  by (auto simp add: logout_def api_post_def response_error_handler_def storage_defs Let_def
      split: settled.splits AxiosError.splits prod.splits)

lemma step_loading: "loading (step S a w) = loading w"
  by (cases a) (simp_all add: login_loading logout_loading)

lemma snapshots_loading:
  "\<not> loading w \<Longrightarrow> map loading (snapshots S as w) = replicate (Suc (length as)) False"
  by (induction as arbitrary: w) (simp_all add: step_loading)

lemma checkAuth_loading: "\<not> loading (checkAuth P w)"
  by (simp add: checkAuth_def Let_def)

lemma reject_with_invalid_credentials:
  "reject_with 401 ''error'' ''Invalid credentials'' ''testuser'' ''wrong'' =
     Rejected invalid_credentials"
  by (simp add: reject_with_def invalid_credentials_def)

section \<open>Start-up check\<close>

text \<open>
  Claim C1 says that \<open>user\<close> is set exactly when \<open>token\<close> is, after every operation, also
  when the start-up check reads a token and a user text that does not parse. The source
  sets \<open>token\<close> before it parses; when the parser throws, the \<^verbatim>\<open>catch\<close> block removes the
  storage entries and leaves the state alone. With the storage \<open>corrupt_store\<close> the check
  therefore ends with \<open>loading\<close> false, \<open>token\<close> set and \<open>user\<close> unset.
\<close>

theorem checkAuth_corrupt_user_keeps_token:
  "token (checkAuth parse_sample (mount corrupt_store ''/dashboard'' unlimited)) = Some ''abc'' \<and>
   user (checkAuth parse_sample (mount corrupt_store ''/dashboard'' unlimited)) = None \<and>
   \<not> loading (checkAuth parse_sample (mount corrupt_store ''/dashboard'' unlimited))"
  by (simp add: checkAuth_def mount_def storage_defs parse_sample_def corrupt_store_def
      alice_json_def)

text \<open>
  Claim C2, as stated, has the check remove both storage entries whenever a key is
  missing. With a token entry and no user entry the source does not enter the \<^verbatim>\<open>if\<close>, no
  exception is thrown, and the token entry is still there afterwards.
\<close>

theorem checkAuth_missing_user_keeps_token_entry:
  "getItem ''user'' (mount token_only_store ''/dashboard'' unlimited) = None \<and>
   \<not> (getItem ''token'' (checkAuth parse_sample (mount token_only_store ''/dashboard'' unlimited)) = None \<and>
      getItem ''user'' (checkAuth parse_sample (mount token_only_store ''/dashboard'' unlimited)) = None)"
  by (simp add: checkAuth_def mount_def storage_defs token_only_store_def)

text \<open>
  Claim C2, amended: when the token key is missing, or the user key is missing, or the
  stored user text does not parse, the start-up check ends unauthenticated with \<open>loading\<close>
  false. Both entries are removed when both are non-empty (so that the parser ran and
  threw); otherwise the storage is left as it was.
\<close>

theorem checkAuth_without_session:
  "store ''token'' = None \<or> store ''user'' = None \<or>
     (\<exists>s. store ''user'' = Some s \<and> JSON_parse s = None) \<Longrightarrow>
   \<not> isAuthenticated (checkAuth JSON_parse (mount store path quota)) \<and>
   \<not> loading (checkAuth JSON_parse (mount store path quota)) \<and>
   localStorage (checkAuth JSON_parse (mount store path quota)) =
     (if truthy (store ''token'') \<and> truthy (store ''user'')
      then store(''token'' := None, ''user'' := None) else store)"
  by (auto simp add: checkAuth_def mount_def storage_defs isAuthenticated_def Let_def
      split: option.splits)

text \<open>
  The amended claim C2 at the storage with an unparsable user (both entries go) and at the
  storage with a token only (nothing is removed).
\<close>

theorem checkAuth_without_session_witness:
  "(\<not> isAuthenticated (checkAuth parse_sample (mount corrupt_store ''/dashboard'' unlimited)) \<and>
    \<not> loading (checkAuth parse_sample (mount corrupt_store ''/dashboard'' unlimited)) \<and>
    localStorage (checkAuth parse_sample (mount corrupt_store ''/dashboard'' unlimited)) =
      corrupt_store(''token'' := None, ''user'' := None)) \<and>
   (\<not> isAuthenticated (checkAuth parse_sample (mount token_only_store ''/dashboard'' unlimited)) \<and>
    \<not> loading (checkAuth parse_sample (mount token_only_store ''/dashboard'' unlimited)) \<and>
    localStorage (checkAuth parse_sample (mount token_only_store ''/dashboard'' unlimited)) =
      token_only_store)"
proof -
  have unparsable: "\<exists>s. corrupt_store ''user'' = Some s \<and> parse_sample s = None"
    by (simp add: corrupt_store_def parse_sample_def alice_json_def)
  have missing: "token_only_store ''user'' = None"
    by (simp add: token_only_store_def)
  have "truthy (corrupt_store ''token'') \<and> truthy (corrupt_store ''user'')"
    by (simp add: corrupt_store_def)
  moreover have "\<not> truthy (token_only_store ''user'')"
    by (simp add: token_only_store_def)
  ultimately show ?thesis
    using checkAuth_without_session [of corrupt_store parse_sample "''/dashboard''" unlimited]
      checkAuth_without_session [of token_only_store parse_sample "''/dashboard''" unlimited]
      unparsable missing
    by simp
qed

section \<open>Login\<close>

text \<open>
  Claim C3, as stated, has a failing login leave the storage untouched. A login attempted
  on \<open>stale_login_page\<close> and answered with status 401 goes through the response
  interceptor, which removes the token entry that was there.
\<close>

theorem login_401_clears_cache:
  "getItem ''token'' stale_login_page = Some ''abc'' \<and>
   getItem ''token''
     (snd (login stringify_sample (reject_with 401 ''error'' ''Invalid credentials'')
        ''testuser'' ''wrong'' stale_login_page)) = None"
  by (simp add: stale_login_page_def checkAuth_def mount_def storage_defs
      token_only_store_def login_def api_post_def reject_with_def response_error_handler_def)

text \<open>
  Claim C3, amended: a login whose request is rejected returns a result with \<open>success\<close>
  false and an error text, and leaves \<open>user\<close>, \<open>token\<close> and \<open>loading\<close> as they were. The
  storage is unchanged unless the rejection is a response with status 401; then both
  entries are removed.
\<close>

theorem login_rejected:
  "authenticate uname password = Rejected e \<Longrightarrow>
   fst (login JSON_stringify authenticate uname password w) =
     \<lparr>success = False, error = Some (error_message e)\<rparr> \<and>
   user (snd (login JSON_stringify authenticate uname password w)) = user w \<and>
   token (snd (login JSON_stringify authenticate uname password w)) = token w \<and>
   loading (snd (login JSON_stringify authenticate uname password w)) = loading w \<and>
   localStorage (snd (login JSON_stringify authenticate uname password w)) =
     (if (\<exists>payload. e = Response 401 payload)
      then (localStorage w)(''token'' := None, ''user'' := None)
      else localStorage w)"
  by (cases e) (auto simp add: login_def api_post_def response_error_handler_def storage_defs
      Let_def)

text \<open>The amended claim C3 at a login on \<open>stale_login_page\<close> answered with status 401.\<close>

theorem login_rejected_witness:
  "reject_with 401 ''error'' ''Invalid credentials'' ''testuser'' ''wrong'' =
     Rejected invalid_credentials \<and>
   fst (login stringify_sample (reject_with 401 ''error'' ''Invalid credentials'')
          ''testuser'' ''wrong'' stale_login_page) =
     \<lparr>success = False, error = Some ''Invalid credentials''\<rparr> \<and>
   user (snd (login stringify_sample (reject_with 401 ''error'' ''Invalid credentials'')
          ''testuser'' ''wrong'' stale_login_page)) = None \<and>
   token (snd (login stringify_sample (reject_with 401 ''error'' ''Invalid credentials'')
          ''testuser'' ''wrong'' stale_login_page)) = None \<and>
   \<not> loading (snd (login stringify_sample (reject_with 401 ''error'' ''Invalid credentials'')
          ''testuser'' ''wrong'' stale_login_page)) \<and>
   localStorage (snd (login stringify_sample (reject_with 401 ''error'' ''Invalid credentials'')
          ''testuser'' ''wrong'' stale_login_page)) = Map.empty"
proof -
  have before:
    "user stale_login_page = None \<and> token stale_login_page = None \<and>
     \<not> loading stale_login_page \<and> localStorage stale_login_page = token_only_store"
    by (simp add: stale_login_page_def checkAuth_def mount_def storage_defs
        token_only_store_def)
  have msg: "error_message invalid_credentials = ''Invalid credentials''"
    by (simp add: error_message_def invalid_credentials_def)
  have is_401: "\<exists>payload. invalid_credentials = Response 401 payload"
    by (simp add: invalid_credentials_def)
  have emptied: "token_only_store(''token'' := None, ''user'' := None) = Map.empty"
    by (simp add: token_only_store_def)
  show ?thesis
    using login_rejected [where authenticate = "reject_with 401 ''error'' ''Invalid credentials''"
        and uname = "''testuser''" and password = "''wrong''" and e = invalid_credentials
        and JSON_stringify = stringify_sample and w = stale_login_page]
      reject_with_invalid_credentials before msg is_401 emptied
    by simp
qed

text \<open>
  Claim C4, as stated, has the text of a payload \<^verbatim>\<open>{message: "Invalid credentials"}\<close>
  returned. The source reads the field \<^verbatim>\<open>error\<close> of the payload, so this payload yields
  the fallback text.
\<close>

theorem login_message_field_ignored:
  "error (fst (login stringify_sample (reject_with 400 ''message'' ''Invalid credentials'')
      ''testuser'' ''wrong'' (mount Map.empty ''/login'' unlimited))) \<noteq> Some ''Invalid credentials''"
  by (simp add: login_def api_post_def reject_with_def response_error_handler_def
      error_message_def login_failed_def)

text \<open>
  Claim C4, amended: a rejected login resolves to a failure whose text is the field
  \<^verbatim>\<open>error\<close> of the response payload when that field is there and not empty, and the
  fallback text "Login failed. Please try again." in every other case.
\<close>

theorem login_error_text:
  "authenticate uname password = Rejected e \<Longrightarrow>
   (\<forall>status payload m.
      e = Response status (Some payload) \<and> payload ''error'' = Some m \<and> m \<noteq> [] \<longrightarrow>
      fst (login JSON_stringify authenticate uname password w) =
        \<lparr>success = False, error = Some m\<rparr>) \<and>
   ((\<forall>status payload m.
       e = Response status (Some payload) \<and> payload ''error'' = Some m \<longrightarrow> m = []) \<longrightarrow>
      fst (login JSON_stringify authenticate uname password w) =
        \<lparr>success = False, error = Some ''Login failed. Please try again.''\<rparr>)"
  by (auto simp add: login_def api_post_def error_message_def login_failed_def
      split: AxiosError.splits option.splits)

text \<open>
  The amended claim C4 at a payload \<^verbatim>\<open>{error: "Invalid credentials"}\<close> and at a request
  that got no response.
\<close>

theorem login_error_text_witness:
  "reject_with 401 ''error'' ''Invalid credentials'' ''testuser'' ''wrong'' =
     Rejected invalid_credentials \<and>
   fst (login stringify_sample (reject_with 401 ''error'' ''Invalid credentials'')
          ''testuser'' ''wrong'' stale_login_page) =
     \<lparr>success = False, error = Some ''Invalid credentials''\<rparr> \<and>
   fst (login stringify_sample (\<lambda>u p. Rejected Request)
          ''testuser'' ''wrong'' stale_login_page) =
     \<lparr>success = False, error = Some ''Login failed. Please try again.''\<rparr>"
proof -
  have network: "(\<lambda>u p. Rejected Request) ''testuser'' ''wrong'' =
      (Rejected Request :: LoginResponse settled)"
    by simp
  show ?thesis
    using login_error_text [where authenticate = "reject_with 401 ''error'' ''Invalid credentials''"
        and uname = "''testuser''" and password = "''wrong''" and e = invalid_credentials
        and JSON_stringify = stringify_sample and w = stale_login_page]
      login_error_text [where authenticate = "\<lambda>u p. Rejected Request"
        and uname = "''testuser''" and password = "''wrong''" and e = Request
        and JSON_stringify = stringify_sample and w = stale_login_page]
      reject_with_invalid_credentials network
    by (simp add: invalid_credentials_def)
qed

text \<open>
  Claim C5, as stated, has every login that the service answers with a token and a user
  end authenticated and resolve to success. The source computes \<^verbatim>\<open>!!token && !!user\<close>, and
  the empty string is falsy: a response whose token is the empty string is stored and set,
  the call resolves to success, and the session is not authenticated. And both writes to
  the storage are inside the \<^verbatim>\<open>try\<close>: in a browser whose storage is full the first write
  throws, the call resolves to failure and \<open>token\<close> stays unset.
\<close>

theorem login_answered_not_authenticated:
  "(success (fst (login stringify_sample (answer_with [] alice)
        ''testuser'' ''testpass123'' (mount Map.empty ''/login'' unlimited))) \<and>
    \<not> isAuthenticated
      (snd (login stringify_sample (answer_with [] alice)
         ''testuser'' ''testpass123'' (mount Map.empty ''/login'' unlimited)))) \<and>
   (\<not> success (fst (login stringify_sample
        (answer_with ''abc'' alice)
        ''testuser'' ''testpass123'' (mount Map.empty ''/login'' full))) \<and>
    token (snd (login stringify_sample
        (answer_with ''abc'' alice)
        ''testuser'' ''testpass123'' (mount Map.empty ''/login'' full))) = None)"
  by (simp add: login_def api_post_def isAuthenticated_def storage_defs mount_def
      unlimited_def full_def answer_with_def)

text \<open>
  Claim C5, amended: a login answered with a token and a user, in a browser whose storage
  accepts both writes, writes the token and the serialized user to the storage, sets
  \<open>token\<close> and \<open>user\<close> to the returned values and resolves to success; the session is then
  authenticated exactly when the returned token is not the empty string. When the storage
  refuses a write, the login resolves to failure with the fallback text and leaves
  \<open>token\<close> and \<open>user\<close> as they were; the storage is unchanged when the first write is
  refused, and holds the new token entry when only the second is.
\<close>

theorem login_fulfilled:
  "authenticate uname password = Fulfilled d \<Longrightarrow>
   (\<not> quota_exceeded w (localStorage w) ''token'' (token_of d) \<and>
    \<not> quota_exceeded w ((localStorage w)(''token'' \<mapsto> token_of d)) ''user''
        (JSON_stringify (user_of d)) \<longrightarrow>
      fst (login JSON_stringify authenticate uname password w) =
        \<lparr>success = True, error = None\<rparr> \<and>
      getItem ''token'' (snd (login JSON_stringify authenticate uname password w)) =
        Some (token_of d) \<and>
      getItem ''user'' (snd (login JSON_stringify authenticate uname password w)) =
        Some (JSON_stringify (user_of d)) \<and>
      token (snd (login JSON_stringify authenticate uname password w)) = Some (token_of d) \<and>
      user (snd (login JSON_stringify authenticate uname password w)) = Some (user_of d) \<and>
      isAuthenticated (snd (login JSON_stringify authenticate uname password w)) =
        (token_of d \<noteq> [])) \<and>
   (quota_exceeded w (localStorage w) ''token'' (token_of d) \<longrightarrow>
      fst (login JSON_stringify authenticate uname password w) =
        \<lparr>success = False, error = Some ''Login failed. Please try again.''\<rparr> \<and>
      token (snd (login JSON_stringify authenticate uname password w)) = token w \<and>
      user (snd (login JSON_stringify authenticate uname password w)) = user w \<and>
      localStorage (snd (login JSON_stringify authenticate uname password w)) =
        localStorage w) \<and>
   (\<not> quota_exceeded w (localStorage w) ''token'' (token_of d) \<and>
    quota_exceeded w ((localStorage w)(''token'' \<mapsto> token_of d)) ''user''
        (JSON_stringify (user_of d)) \<longrightarrow>
      fst (login JSON_stringify authenticate uname password w) =
        \<lparr>success = False, error = Some ''Login failed. Please try again.''\<rparr> \<and>
      token (snd (login JSON_stringify authenticate uname password w)) = token w \<and>
      user (snd (login JSON_stringify authenticate uname password w)) = user w \<and>
      localStorage (snd (login JSON_stringify authenticate uname password w)) =
        (localStorage w)(''token'' \<mapsto> token_of d))"
proof -
  assume answered: "authenticate uname password = Fulfilled d"
  let ?first = "quota_exceeded w (localStorage w) ''token'' (token_of d)"
  let ?second = "quota_exceeded w ((localStorage w)(''token'' \<mapsto> token_of d)) ''user''
        (JSON_stringify (user_of d))"
  have accepted: "\<not> ?first \<Longrightarrow> \<not> ?second \<Longrightarrow>
      login JSON_stringify authenticate uname password w =
        (\<lparr>success = True, error = None\<rparr>,
         w\<lparr>localStorage := (localStorage w)(''token'' \<mapsto> token_of d,
               ''user'' \<mapsto> JSON_stringify (user_of d)),
           token := Some (token_of d), user := Some (user_of d)\<rparr>)"
    using answered by (simp add: login_def api_post_def setItem_def Let_def)
  have first_refused: "?first \<Longrightarrow>
      login JSON_stringify authenticate uname password w =
        (\<lparr>success = False, error = Some login_failed\<rparr>, w)"
    using answered by (simp add: login_def api_post_def setItem_def Let_def)
  have second_refused: "\<not> ?first \<Longrightarrow> ?second \<Longrightarrow>
      login JSON_stringify authenticate uname password w =
        (\<lparr>success = False, error = Some login_failed\<rparr>,
         w\<lparr>localStorage := (localStorage w)(''token'' \<mapsto> token_of d)\<rparr>)"
    using answered by (simp add: login_def api_post_def setItem_def Let_def)
  show ?thesis
    using accepted first_refused second_refused
    by (auto simp add: isAuthenticated_def getItem_def login_failed_def)
qed

text \<open>
  The amended claim C5 at a login answered with the token \<^verbatim>\<open>abc\<close> and \<open>alice\<close>, in a
  browser that accepts both writes, in one whose storage is full, and in one that has
  room for the token and not for the user.
\<close>

theorem login_fulfilled_witness:
  "(fst (login stringify_sample (answer_with ''abc'' alice)
          ''testuser'' ''testpass123'' (mount Map.empty ''/login'' unlimited)) =
      \<lparr>success = True, error = None\<rparr> \<and>
    getItem ''token''
      (snd (login stringify_sample (answer_with ''abc'' alice)
          ''testuser'' ''testpass123'' (mount Map.empty ''/login'' unlimited))) = Some ''abc'' \<and>
    getItem ''user''
      (snd (login stringify_sample (answer_with ''abc'' alice)
          ''testuser'' ''testpass123'' (mount Map.empty ''/login'' unlimited))) =
      Some alice_json \<and>
    isAuthenticated
      (snd (login stringify_sample (answer_with ''abc'' alice)
          ''testuser'' ''testpass123'' (mount Map.empty ''/login'' unlimited)))) \<and>
   (fst (login stringify_sample (answer_with ''abc'' alice)
          ''testuser'' ''testpass123'' (mount Map.empty ''/login'' full)) =
      \<lparr>success = False, error = Some ''Login failed. Please try again.''\<rparr> \<and>
    getItem ''token''
      (snd (login stringify_sample (answer_with ''abc'' alice)
          ''testuser'' ''testpass123'' (mount Map.empty ''/login'' full))) = None) \<and>
   (fst (login stringify_sample (answer_with ''abc'' alice)
          ''testuser'' ''testpass123'' (mount Map.empty ''/login'' short_values_only)) =
      \<lparr>success = False, error = Some ''Login failed. Please try again.''\<rparr> \<and>
    token
      (snd (login stringify_sample (answer_with ''abc'' alice)
          ''testuser'' ''testpass123'' (mount Map.empty ''/login'' short_values_only))) =
      None \<and>
    getItem ''token''
      (snd (login stringify_sample (answer_with ''abc'' alice)
          ''testuser'' ''testpass123'' (mount Map.empty ''/login'' short_values_only))) =
      Some ''abc'')"
proof -
  have answered:
    "answer_with ''abc'' alice ''testuser'' ''testpass123'' =
       Fulfilled \<lparr>token_of = ''abc'', user_of = alice\<rparr>"
    by (simp add: answer_with_def)
  have room: "\<not> short_values_only Map.empty ''token'' ''abc''"
    by (simp add: short_values_only_def)
  have no_room: "short_values_only [''token'' \<mapsto> ''abc''] ''user'' alice_json"
    by (simp add: short_values_only_def alice_json_def)
  show ?thesis
    using login_fulfilled
        [where authenticate = "answer_with ''abc'' alice"
        and uname = "''testuser''" and password = "''testpass123''"
        and d = "\<lparr>token_of = ''abc'', user_of = alice\<rparr>"
        and JSON_stringify = stringify_sample
        and w = "mount Map.empty ''/login'' unlimited"]
      login_fulfilled
        [where authenticate = "answer_with ''abc'' alice"
        and uname = "''testuser''" and password = "''testpass123''"
        and d = "\<lparr>token_of = ''abc'', user_of = alice\<rparr>"
        and JSON_stringify = stringify_sample
        and w = "mount Map.empty ''/login'' full"]
      login_fulfilled
        [where authenticate = "answer_with ''abc'' alice"
        and uname = "''testuser''" and password = "''testpass123''"
        and d = "\<lparr>token_of = ''abc'', user_of = alice\<rparr>"
        and JSON_stringify = stringify_sample
        and w = "mount Map.empty ''/login'' short_values_only"]
      answered room no_room
    by (simp add: stringify_sample_def mount_def unlimited_def full_def getItem_def)
qed

section \<open>Logout\<close>

text \<open>
  Claim C6: whatever the transport answers to the revoke request (fulfilled, an error
  response, no response), \<^verbatim>\<open>logout\<close> ends with \<open>token\<close> and \<open>user\<close> unset, both storage
  entries removed and the session not authenticated. Its result is the new state alone:
  the rejection is not handed on.
\<close>

theorem logout_clears:
  "token (logout revoke w) = None \<and> user (logout revoke w) = None \<and>
   getItem ''token'' (logout revoke w) = None \<and> getItem ''user'' (logout revoke w) = None \<and>
   \<not> isAuthenticated (logout revoke w)"
  by (simp add: logout_def isAuthenticated_def storage_defs split: prod.splits)

section \<open>The loading flag\<close>

text \<open>
  Claim C7: over the life of a process (mount, start-up check, then any sequence of logins
  and logouts with any answers) \<open>loading\<close> is true in the first snapshot only: it falls at
  the end of the start-up check, whatever the storage holds, and stays false.
\<close>

theorem loading_falls_once:
  "map loading (lifetime JSON_parse JSON_stringify store path quota as) =
     True # replicate (Suc (length as)) False"
  by (simp add: lifetime_def snapshots_loading checkAuth_loading) (simp add: mount_def)

section \<open>Route guard\<close>

text \<open>
  Claim C8: when \<open>loading\<close> is true the guard renders the placeholder, whatever
  \<open>isAuthenticated\<close> is: neither the children nor a redirect, and the history stays as it
  is.
\<close>

theorem PrivateRoute_loading:
  "ctx_loading c \<Longrightarrow>
   PrivateRoute (Some c) = Inr Placeholder \<and> commit Placeholder history = history"
  by (simp add: PrivateRoute_def useAuth_def)

text \<open>
  Claim C8 at a context that is loading and authenticated, and at the context of a
  freshly mounted provider.
\<close>

theorem PrivateRoute_loading_witness:
  "PrivateRoute (Some \<lparr>ctx_user = Some alice, ctx_token = Some ''abc'', ctx_loading = True,
      ctx_isAuthenticated = True\<rparr>) = Inr Placeholder \<and>
   PrivateRoute (Some (context_value (mount valid_store ''/dashboard'' unlimited))) = Inr Placeholder"
  using PrivateRoute_loading [of "\<lparr>ctx_user = Some alice, ctx_token = Some ''abc'',
      ctx_loading = True, ctx_isAuthenticated = True\<rparr>"]
    PrivateRoute_loading [of "context_value (mount valid_store ''/dashboard'' unlimited)"]
  by (simp add: context_value_def mount_def)

text \<open>
  Claim C9: when \<open>loading\<close> is false and \<open>isAuthenticated\<close> is false the guard renders a
  \<^verbatim>\<open>Navigate\<close> to \<^verbatim>\<open>/login\<close> with \<^verbatim>\<open>replace\<close>; committed, it replaces the current history
  entry and pushes none.
\<close>

theorem PrivateRoute_unauthenticated:
  "\<not> ctx_loading c \<Longrightarrow> \<not> ctx_isAuthenticated c \<Longrightarrow>
   PrivateRoute (Some c) = Inr (Navigate ''/login'' True) \<and>
   commit (Navigate ''/login'' True) (current # older) = ''/login'' # older"
  by (simp add: PrivateRoute_def useAuth_def)

text \<open>Claim C9 at the context after a start-up check on an empty storage.\<close>

theorem PrivateRoute_unauthenticated_witness:
  "PrivateRoute (Some (context_value (checkAuth parse_sample (mount Map.empty ''/dashboard'' unlimited)))) =
     Inr (Navigate ''/login'' True) \<and>
   commit (Navigate ''/login'' True) [''/dashboard'', ''/''] = [''/login'', ''/'']"
proof -
  have "\<not> ctx_loading (context_value (checkAuth parse_sample (mount Map.empty ''/dashboard'' unlimited)))"
    by (simp add: context_value_def checkAuth_def mount_def storage_defs)
  moreover have
    "\<not> ctx_isAuthenticated
        (context_value (checkAuth parse_sample (mount Map.empty ''/dashboard'' unlimited)))"
    by (simp add: context_value_def checkAuth_def mount_def storage_defs isAuthenticated_def)
  ultimately show ?thesis
    using PrivateRoute_unauthenticated
      [of "context_value (checkAuth parse_sample (mount Map.empty ''/dashboard'' unlimited))"
          "''/dashboard''" "[''/'']"]
    by simp
qed

section \<open>Responses with status 401\<close>

text \<open>
  Claim C10: for a response with status 401 the interceptor removes the token and user
  entries from the storage and sends the browser to \<^verbatim>\<open>/login\<close> unless it is there already,
  and the caller gets the rejection together with that state. So a login answered with 401
  ends in the state the interceptor left, and a logout answered with 401 starts its clearing
  from it.
\<close>

theorem unauthorized_response_clears_cache:
  "api_post (Rejected (Response 401 payload)) w =
     (Rejected (Response 401 payload), response_error_handler (Response 401 payload) w) \<and>
   getItem ''token'' (response_error_handler (Response 401 payload) w) = None \<and>
   getItem ''user'' (response_error_handler (Response 401 payload) w) = None \<and>
   pathname (response_error_handler (Response 401 payload) w) = ''/login'' \<and>
   navigations (response_error_handler (Response 401 payload) w) =
     (if pathname w = ''/login'' then navigations w else ''/login'' # navigations w) \<and>
   snd (login JSON_stringify (\<lambda>u p. Rejected (Response 401 payload)) uname password w) =
     response_error_handler (Response 401 payload) w \<and>
   logout (Rejected (Response 401 payload)) w =
     (response_error_handler (Response 401 payload) w)\<lparr>token := None, user := None\<rparr>"
  by (simp add: api_post_def response_error_handler_def storage_defs login_def logout_def
      Let_def)

end
